theory Spec2Isabelle
  imports Main "HOL-Library.Sublist"
begin

section \<open>The plugin host process (plugin-host.ts)\<close>

text \<open>
  The file \<^verbatim>\<open>packages/plugin-ext/src/hosted/node/plugin-host.ts\<close> wires the process
  channel to an emitter and an RPC engine and builds the host-side plugin manager from
  two callbacks, \<^verbatim>\<open>loadPlugin\<close> and \<^verbatim>\<open>init\<close>. The embedding below follows the file
  statement by statement. Exceptions are values, and everything the file does to the
  outside (console output, \<^verbatim>\<open>require\<close>, calls of module hooks, \<^verbatim>\<open>emitter.fire\<close>,
  pushes on the two local arrays) is recorded, in order, in a trace.
\<close>

subsection \<open>Data\<close>

text \<open>
  The interfaces \<^verbatim>\<open>PluginMetadata\<close>, \<^verbatim>\<open>PluginModel\<close>, \<^verbatim>\<open>PluginLifecycle\<close> and
  \<^verbatim>\<open>Plugin\<close> are imported by the file; only the fields that it reads or writes
  are kept. An optional property (\<^verbatim>\<open>frontend?: string\<close>) is an \<open>option\<close>, with \<open>None\<close>
  for \<^verbatim>\<open>undefined\<close>. The object \<^verbatim>\<open>entryPoint\<close> is always there: the file reads its
  properties without a test. The package description behind \<^verbatim>\<open>plg.source\<close> is a type
  parameter.
\<close>

record PluginEntryPoint =
  frontend :: "string option"
  backend :: "string option"

record PluginModel =
  name :: string
  entryPoint :: PluginEntryPoint

record PluginLifecycle =
  startMethod :: string
  stopMethod :: string
  frontendInitPath :: "string option"
  backendInitPath :: "string option"

record 'p PluginMetadata =
  source :: 'p
  model :: PluginModel
  lifecycle :: PluginLifecycle

text \<open>
  A \<^verbatim>\<open>Plugin\<close> object as \<^verbatim>\<open>init\<close> builds it. Its two paths are declared \<^verbatim>\<open>string\<close>, but
  the frontend branch fills them with non-null assertions (\<^verbatim>\<open>frontend!\<close>,
  \<^verbatim>\<open>frontendInitPath!\<close>), which are erased at run time: the value may be \<^verbatim>\<open>undefined\<close>.
\<close>

record 'p Plugin =
  pluginPath :: "string option"
  initPath :: "string option"
  pluginModel :: PluginModel
  pluginLifecycle :: PluginLifecycle
  rowModel :: 'p

text \<open>A thrown value.\<close>

datatype error =
  SyntaxError string
  | TypeError string
  | Raised string

text \<open>The result of running a piece of code: it returns a value or throws.\<close>

datatype 'a outcome = Returns 'a | Throws error

text \<open>
  The arguments that the file passes to module hooks: the module-level constants \<^verbatim>\<open>rpc\<close>
  and \<^verbatim>\<open>pluginManager\<close>, a descriptor, a plugin.
\<close>

datatype 'p arg =
  ArgRpc
  | ArgPluginManager
  | ArgMetadata "'p PluginMetadata"
  | ArgPlugin "'p Plugin"

text \<open>
  A property of a module's exports that the file calls as a function: falsy
  (\<^verbatim>\<open>undefined\<close> when the module does not export it), truthy but not a function, or a
  function. A function is foreign code: it acts on the world outside this file, of type
  \<open>'w\<close>, and returns or throws.
\<close>

datatype ('p, 'w) hook =
  Absent
  | NotCallable
  | Callable "'p arg list \<Rightarrow> 'w \<Rightarrow> unit outcome \<times> 'w"

text \<open>
  What \<^verbatim>\<open>require\<close> returns: \<^verbatim>\<open>null\<close> or \<^verbatim>\<open>undefined\<close>, on which reading a property throws,
  or a value with the two properties the file reads.
\<close>

datatype ('p, 'w) exports =
  Nullish
  | Exports (doInitialization: "('p, 'w) hook") (doLoad: "('p, 'w) hook")

datatype bucket = Result | Foreign

datatype ('p, 'j) event =
  ConsoleLog string
  | ConsoleError error
  | Require "string option"
  | Invoke string string "'p arg list"
  | Push bucket "'p Plugin"
  | Fire 'j

text \<open>The state of the host process: what this file has done so far, and the world.\<close>

record ('p, 'j, 'w) host =
  trace :: "('p, 'j) event list"
  world :: 'w

text \<open>
  What the file takes from its environment: the process id, Node's \<^verbatim>\<open>require\<close> on a
  string, \<^verbatim>\<open>JSON.parse\<close> (decoded frames have type \<open>'j\<close>), and the emitter's \<^verbatim>\<open>fire\<close>,
  which runs the subscribers.
\<close>

record ('p, 'j, 'w) env =
  pid :: nat
  require :: "string \<Rightarrow> 'w \<Rightarrow> ('p, 'w) exports outcome \<times> 'w"
  parse :: "string \<Rightarrow> error + 'j"
  fire :: "'j \<Rightarrow> 'w \<Rightarrow> unit outcome \<times> 'w"

type_synonym ('p, 'j, 'w, 'a) action =
  "('p, 'j, 'w) host \<Rightarrow> 'a outcome \<times> ('p, 'j, 'w) host"

subsection \<open>JavaScript primitives\<close>

text \<open>Truthiness of a possibly undefined string: \<^verbatim>\<open>undefined\<close> and \<^verbatim>\<open>''\<close> are falsy.\<close>

definition truthy :: "string option \<Rightarrow> bool" where
  "truthy v = (case v of None \<Rightarrow> False | Some s \<Rightarrow> s \<noteq> [])"

text \<open>Truthiness of a property of a module's exports.\<close>

definition defined :: "('p, 'w) hook \<Rightarrow> bool" where
  "defined f = (case f of Absent \<Rightarrow> False | NotCallable \<Rightarrow> True | Callable g \<Rightarrow> True)"

text \<open>String concatenation with a possibly undefined operand.\<close>

definition js_string :: "string option \<Rightarrow> string" where
  "js_string v = (case v of None \<Rightarrow> ''undefined'' | Some s \<Rightarrow> s)"

fun decimal :: "nat \<Rightarrow> string" where
  "decimal n =
     (if n < 10 then [char_of (48 + n)]
      else decimal (n div 10) @ [char_of (48 + n mod 10)])"

declare decimal.simps [simp del]

definition emit :: "('p, 'j) event \<Rightarrow> ('p, 'j, 'w) host \<Rightarrow> ('p, 'j, 'w) host" where
  "emit ev h = h\<lparr>trace := trace h @ [ev]\<rparr>"

definition bind ::
  "('p, 'j, 'w, 'a) action \<Rightarrow> ('a \<Rightarrow> ('p, 'j, 'w, 'b) action) \<Rightarrow> ('p, 'j, 'w, 'b) action"
where
  "bind m f h = (case m h of (Returns x, h') \<Rightarrow> f x h' | (Throws e, h') \<Rightarrow> (Throws e, h'))"

definition return :: "'a \<Rightarrow> ('p, 'j, 'w, 'a) action" where
  "return x h = (Returns x, h)"

text \<open>\<^verbatim>\<open>try { body } catch (e) { handler(e) }\<close>\<close>

definition try_catch ::
  "('p, 'j, 'w, 'a) action \<Rightarrow> (error \<Rightarrow> ('p, 'j, 'w, 'a) action) \<Rightarrow> ('p, 'j, 'w, 'a) action"
where
  "try_catch body handler h =
     (case body h of (Returns x, h') \<Rightarrow> (Returns x, h') | (Throws e, h') \<Rightarrow> handler e h')"

definition console_log :: "string \<Rightarrow> ('p, 'j, 'w, unit) action" where
  "console_log s h = (Returns (), emit (ConsoleLog s) h)"

definition console_error :: "error \<Rightarrow> ('p, 'j, 'w, unit) action" where
  "console_error e h = (Returns (), emit (ConsoleError e) h)"

text \<open>\<^verbatim>\<open>result.push(plugin)\<close> and \<^verbatim>\<open>foreign.push(plugin)\<close>, as seen from outside.\<close>

definition push :: "bucket \<Rightarrow> 'p Plugin \<Rightarrow> ('p, 'j, 'w, unit) action" where
  "push b plugin h = (Returns (), emit (Push b plugin) h)"

text \<open>Running foreign code on the world.\<close>

definition outside :: "('w \<Rightarrow> 'a outcome \<times> 'w) \<Rightarrow> ('p, 'j, 'w, 'a) action" where
  "outside f h = (case f (world h) of (r, w) \<Rightarrow> (r, h\<lparr>world := w\<rparr>))"

text \<open>
  \<^verbatim>\<open>require(path)\<close>. Node throws a type error when the argument is not a string; what a
  string loads is the environment's.
\<close>

definition require_module ::
  "('p, 'j, 'w) env \<Rightarrow> string option \<Rightarrow> ('p, 'j, 'w, ('p, 'w) exports) action"
where
  "require_module env path h =
     (case path of
        None \<Rightarrow> (Throws (TypeError ''The id argument must be of type string''), emit (Require path) h)
      | Some s \<Rightarrow> outside (require env s) (emit (Require path) h))"

text \<open>Reading the property \<open>sel\<close> of what \<^verbatim>\<open>require\<close> returned.\<close>

definition property ::
  "(('p, 'w) exports \<Rightarrow> ('p, 'w) hook) \<Rightarrow> ('p, 'w) exports \<Rightarrow> ('p, 'j, 'w, ('p, 'w) hook) action"
where
  "property sel m h =
     (case m of
        Nullish \<Rightarrow> (Throws (TypeError ''Cannot read properties of undefined''), h)
      | Exports i l \<Rightarrow> (Returns (sel m), h))"

text \<open>
  Calling a property of the module loaded from \<open>path\<close> as a function, with arguments.
\<close>

definition call ::
  "string \<Rightarrow> string \<Rightarrow> ('p, 'w) hook \<Rightarrow> 'p arg list \<Rightarrow> ('p, 'j, 'w, unit) action"
where
  "call path prop f args h =
     (case f of
        Callable g \<Rightarrow> outside (g args) (emit (Invoke path prop args) h)
      | _ \<Rightarrow> (Throws (TypeError (prop @ '' is not a function'')), h))"

subsection \<open>The inbound message handler (lines 35 to 41)\<close>

definition on_message :: "('p, 'j, 'w) env \<Rightarrow> string \<Rightarrow> ('p, 'j, 'w, unit) action" where
  "on_message env message =
     try_catch
       (\<lambda>h. case parse env message of
              Inl e \<Rightarrow> (Throws e, h)
            | Inr v \<Rightarrow> outside (fire env v) (emit (Fire v) h))
       (\<lambda>e. console_error e)"

subsection \<open>initialize (lines 44 to 48)\<close>

definition initialize ::
  "('p, 'j, 'w) env \<Rightarrow> string \<Rightarrow> 'p PluginMetadata \<Rightarrow> ('p, 'j, 'w, unit) action"
where
  "initialize env contextPath pluginMetadata =
     bind (console_log (''PLUGIN_HOST('' @ decimal (pid env) @ ''): initializing('' @ contextPath @ '')''))
       (\<lambda>_. bind (require_module env (Some contextPath))
         (\<lambda>backendInit. bind (property doInitialization backendInit)
           (\<lambda>f. call contextPath ''doInitialization'' f
                  [ArgRpc, ArgPluginManager, ArgMetadata pluginMetadata])))"

subsection \<open>loadPlugin (lines 51 to 62)\<close>

text \<open>Lines 52 to 56: the initializer module and its \<^verbatim>\<open>doLoad\<close> hook.\<close>

definition loadPlugin_init ::
  "('p, 'j, 'w) env \<Rightarrow> string \<Rightarrow> 'p Plugin \<Rightarrow> ('p, 'j, 'w, unit) action"
where
  "loadPlugin_init env contextPath plugin =
     bind (console_log (''PLUGIN_HOST('' @ decimal (pid env) @ ''): loadPlugin(''
                         @ js_string (pluginPath plugin) @ '')''))
       (\<lambda>_. bind (require_module env (Some contextPath))
         (\<lambda>backendInit. bind (property doLoad backendInit)
           (\<lambda>f. if defined f then call contextPath ''doLoad'' f [ArgRpc, ArgPlugin plugin]
                 else return ())))"

text \<open>
  Lines 57 to 61: the plugin's main module. The function returns what \<^verbatim>\<open>require\<close>
  returned, or \<^verbatim>\<open>undefined\<close> (\<open>None\<close>) after the catch block.
\<close>

definition loadPlugin_main ::
  "('p, 'j, 'w) env \<Rightarrow> 'p Plugin \<Rightarrow> ('p, 'j, 'w, ('p, 'w) exports option) action"
where
  "loadPlugin_main env plugin =
     try_catch
       (bind (require_module env (pluginPath plugin)) (\<lambda>m. return (Some m)))
       (\<lambda>e. bind (console_error e) (\<lambda>_. return None))"

definition loadPlugin ::
  "('p, 'j, 'w) env \<Rightarrow> string \<Rightarrow> 'p Plugin \<Rightarrow> ('p, 'j, 'w, ('p, 'w) exports option) action"
where
  "loadPlugin env contextPath plugin =
     bind (loadPlugin_init env contextPath plugin) (\<lambda>_. loadPlugin_main env plugin)"

subsection \<open>init (lines 63 to 97)\<close>

text \<open>The object literal of lines 77 to 83, with \<open>p\<close> the value of \<^verbatim>\<open>backendInitPath\<close>.\<close>

definition backend_plugin :: "string \<Rightarrow> 'p PluginMetadata \<Rightarrow> 'p Plugin" where
  "backend_plugin p plg =
     \<lparr>pluginPath = backend (entryPoint (model plg)),
      initPath = Some p,
      pluginModel = model plg,
      pluginLifecycle = lifecycle plg,
      rowModel = source plg\<rparr>"

text \<open>The object literal of lines 86 to 92.\<close>

definition frontend_plugin :: "'p PluginMetadata \<Rightarrow> 'p Plugin" where
  "frontend_plugin plg =
     \<lparr>pluginPath = frontend (entryPoint (model plg)),
      initPath = frontendInitPath (lifecycle plg),
      pluginModel = model plg,
      pluginLifecycle = lifecycle plg,
      rowModel = source plg\<rparr>"

text \<open>The body of the loop, lines 67 to 93, on the two arrays.\<close>

definition init_body ::
  "('p, 'j, 'w) env \<Rightarrow> 'p PluginMetadata \<Rightarrow> 'p Plugin list \<times> 'p Plugin list
     \<Rightarrow> ('p, 'j, 'w, 'p Plugin list \<times> 'p Plugin list) action"
where
  "init_body env plg acc =
     (case acc of (result, foreign) \<Rightarrow>
        if truthy (backend (entryPoint (model plg))) then
          bind (case backendInitPath (lifecycle plg) of
                  Some p \<Rightarrow>
                    if truthy (Some p) then bind (initialize env p plg) (\<lambda>_. return p)
                    else return []
                | None \<Rightarrow> return [])
            (\<lambda>p. bind (push Result (backend_plugin p plg))
                   (\<lambda>_. return (result @ [backend_plugin p plg], foreign)))
        else
          bind (push Foreign (frontend_plugin plg))
            (\<lambda>_. return (result, foreign @ [frontend_plugin plg])))"

fun init_loop ::
  "('p, 'j, 'w) env \<Rightarrow> 'p PluginMetadata list \<Rightarrow> 'p Plugin list \<times> 'p Plugin list
     \<Rightarrow> ('p, 'j, 'w, 'p Plugin list \<times> 'p Plugin list) action"
where
  "init_loop env [] acc = return acc"
| "init_loop env (plg # raw) acc = bind (init_body env plg acc) (init_loop env raw)"

definition init ::
  "('p, 'j, 'w) env \<Rightarrow> 'p PluginMetadata list
     \<Rightarrow> ('p, 'j, 'w, 'p Plugin list \<times> 'p Plugin list) action"
where
  "init env raw = init_loop env raw ([], [])"

subsection \<open>A concrete environment\<close>

text \<open>
  A small file system of modules, used to run the functions above on concrete inputs.
  The world counts the module bodies and hooks that have run.
\<close>

definition hook_ok :: "unit arg list \<Rightarrow> nat \<Rightarrow> unit outcome \<times> nat" where
  "hook_ok args w = (Returns (), Suc w)"

definition hook_failing :: "unit arg list \<Rightarrow> nat \<Rightarrow> unit outcome \<times> nat" where
  "hook_failing args w = (Throws (Raised ''hook failed''), Suc w)"

definition sample_require :: "string \<Rightarrow> nat \<Rightarrow> (unit, nat) exports outcome \<times> nat" where
  "sample_require path w =
     (if path = ''c-init.js'' then (Returns (Exports (Callable hook_ok) Absent), Suc w)
      else if path = ''init.js'' then (Returns (Exports (Callable hook_ok) (Callable hook_ok)), Suc w)
      else if path = ''failing-init.js'' then (Returns (Exports Absent (Callable hook_failing)), Suc w)
      else if path = ''throwing-init.js'' then (Returns (Exports (Callable hook_failing) Absent), Suc w)
      else if path = ''a.js'' \<or> path = ''c.js'' \<or> path = ''main.js''
        then (Returns (Exports Absent Absent), Suc w)
      else (Throws (Raised (''Cannot find module '' @ path)), w))"

definition sample_parse :: "string \<Rightarrow> error + string" where
  "sample_parse message =
     (if message = ''{}'' \<or> message = ''[]'' then Inr message
      else Inl (SyntaxError ''Unexpected token''))"

definition sample_fire :: "string \<Rightarrow> nat \<Rightarrow> unit outcome \<times> nat" where
  "sample_fire v w =
     (if v = ''[]'' then (Throws (Raised ''subscriber failed''), Suc w) else (Returns (), Suc w))"

definition sample_env :: "(unit, string, nat) env" where
  "sample_env = \<lparr>pid = 4711, require = sample_require, parse = sample_parse, fire = sample_fire\<rparr>"

definition start :: "(unit, string, nat) host" where
  "start = \<lparr>trace = [], world = 0\<rparr>"

definition descriptor ::
  "string option \<Rightarrow> string option \<Rightarrow> string option \<Rightarrow> unit PluginMetadata"
where
  "descriptor b f i =
     \<lparr>source = (),
      model = \<lparr>name = ''plugin'', entryPoint = \<lparr>frontend = f, backend = b\<rparr>\<rparr>,
      lifecycle = \<lparr>startMethod = ''start'', stopMethod = ''stop'',
                   frontendInitPath = None, backendInitPath = i\<rparr>\<rparr>"

text \<open>The three descriptors of the scenario, and a descriptor with no entry point.\<close>

definition plugin_a :: "unit PluginMetadata" where
  "plugin_a = descriptor (Some ''a.js'') None None"

definition plugin_b :: "unit PluginMetadata" where
  "plugin_b = descriptor None (Some ''b.js'') None"

definition plugin_c :: "unit PluginMetadata" where
  "plugin_c = descriptor (Some ''c.js'') None (Some ''c-init.js'')"

definition plugin_none :: "unit PluginMetadata" where
  "plugin_none = descriptor None None None"

text \<open>
  Two backend descriptors whose initializer fails: the hook of the first throws, the
  module of the second does not exist.
\<close>

definition plugin_throwing :: "unit PluginMetadata" where
  "plugin_throwing = descriptor (Some ''d.js'') None (Some ''throwing-init.js'')"

definition plugin_missing :: "unit PluginMetadata" where
  "plugin_missing = descriptor (Some ''e.js'') None (Some ''missing-init.js'')"

text \<open>
  Two backend plugins as \<^verbatim>\<open>init\<close> returns them, both with the initializer
  \<^verbatim>\<open>init.js\<close>: the main module of the first exists, that of the second does not.
\<close>

definition plugin_main :: "unit Plugin" where
  "plugin_main = backend_plugin ''init.js'' (descriptor (Some ''main.js'') None (Some ''init.js''))"

definition plugin_broken :: "unit Plugin" where
  "plugin_broken = backend_plugin ''init.js'' (descriptor (Some ''broken.js'') None (Some ''init.js''))"

section \<open>Auxiliary facts\<close>

subsection \<open>Sequencing\<close>

lemma bind_return_left: "bind (return x) f = f x"
  by (rule ext) (simp add: bind_def return_def)

lemma bind_assoc: "bind (bind m f) g = bind m (\<lambda>x. bind (f x) g)"
  by (rule ext) (simp add: bind_def split: prod.splits outcome.splits)

lemma bind_ReturnsD:
  assumes "bind m f h = (Returns y, h2)"
  obtains x h1 where "m h = (Returns x, h1)" and "f x h1 = (Returns y, h2)"
  using assms by (auto simp: bind_def split: prod.splits outcome.splits)

lemma init_loop_append:
  "init_loop env (xs @ ys) acc = bind (init_loop env xs acc) (init_loop env ys)"
proof (induction xs arbitrary: acc)
  case Nil
  show ?case by (simp add: bind_return_left)
next
  case (Cons plg xs)
  have "init_loop env (xs @ ys) = (\<lambda>a. bind (init_loop env xs a) (init_loop env ys))"
    by (rule ext) (rule Cons.IH)
  then show ?case by (simp add: bind_assoc)
qed

subsection \<open>The trace only grows\<close>

lemma grows_bind:
  assumes "\<And>h. prefix (trace h) (trace (snd (m h)))"
    and "\<And>x h. prefix (trace h) (trace (snd (f x h)))"
  shows "prefix (trace h) (trace (snd (bind m f h)))"
proof (cases "m h")
  case (Pair r h1)
  have a: "prefix (trace h) (trace h1)" using assms(1)[of h] Pair by simp
  show ?thesis
  proof (cases r)
    case (Returns x)
    then have "bind m f h = f x h1" using Pair by (simp add: bind_def)
    then show ?thesis using a assms(2)[of h1 x] by (metis prefix_order.trans)
  next
    case (Throws e)
    then show ?thesis using Pair a by (simp add: bind_def)
  qed
qed

lemma grows_return: "prefix (trace h) (trace (snd (return x h)))"
  by (simp add: return_def)

lemma grows_push: "prefix (trace h) (trace (snd (push b p h)))"
  by (simp add: push_def emit_def)

lemma grows_console_log: "prefix (trace h) (trace (snd (console_log s h)))"
  by (simp add: console_log_def emit_def)

lemma grows_outside: "prefix (trace h) (trace (snd (outside f h)))"
  by (simp add: outside_def split: prod.splits)

lemma grows_require_module: "prefix (trace h) (trace (snd (require_module env path h)))"
  by (simp add: require_module_def outside_def emit_def split: option.splits prod.splits)

lemma grows_property: "prefix (trace h) (trace (snd (property sel m h)))"
  by (simp add: property_def split: exports.splits)

lemma grows_call: "prefix (trace h) (trace (snd (call path prop f args h)))"
  by (simp add: call_def outside_def emit_def split: hook.splits prod.splits)

lemma grows_initialize: "prefix (trace h) (trace (snd (initialize env p plg h)))"
  unfolding initialize_def
  by (intro grows_bind grows_console_log grows_require_module grows_property grows_call)

lemma grows_init_body: "prefix (trace h) (trace (snd (init_body env plg acc h)))"
  unfolding init_body_def
  by (auto split: prod.splits option.splits
      intro!: grows_bind grows_initialize grows_return grows_push)

lemma grows_init_loop: "prefix (trace h) (trace (snd (init_loop env raw acc h)))"
proof (induction raw arbitrary: acc h)
  case Nil
  show ?case by (simp add: grows_return)
next
  case (Cons plg raw)
  show ?case by (simp add: grows_bind grows_init_body Cons.IH)
qed

lemma grows_loadPlugin_main: "prefix (trace h) (trace (snd (loadPlugin_main env plugin h)))"
proof -
  have "prefix (trace h) (trace (snd (require_module env (pluginPath plugin) h)))"
    by (rule grows_require_module)
  then show ?thesis
    by (auto simp: loadPlugin_main_def try_catch_def bind_def return_def console_error_def emit_def
        split: prod.splits outcome.splits intro: prefix_order.trans)
qed

lemma loadPlugin_init_trace:
  "trace (snd (loadPlugin_init env contextPath plugin h))
     = trace h @ [ConsoleLog (''PLUGIN_HOST('' @ decimal (pid env) @ ''): loadPlugin(''
                         @ js_string (pluginPath plugin) @ '')''), Require (Some contextPath)]
   \<or> trace (snd (loadPlugin_init env contextPath plugin h))
     = trace h @ [ConsoleLog (''PLUGIN_HOST('' @ decimal (pid env) @ ''): loadPlugin(''
                         @ js_string (pluginPath plugin) @ '')''), Require (Some contextPath),
                  Invoke contextPath ''doLoad'' [ArgRpc, ArgPlugin plugin]]"
  by (auto simp: loadPlugin_init_def bind_def return_def console_log_def require_module_def
        property_def call_def outside_def emit_def defined_def
      split: prod.splits outcome.splits exports.splits hook.splits)

subsection \<open>One turn of the loop of init\<close>

lemma init_body_Returns:
  assumes "init_body env plg (r, f) h = (Returns acc, h1)"
  shows "acc = (if truthy (backend (entryPoint (model plg)))
                then (r @ [backend_plugin (case backendInitPath (lifecycle plg) of None \<Rightarrow> [] | Some p \<Rightarrow> p) plg], f)
                else (r, f @ [frontend_plugin plg]))"
  using assms
  by (auto simp: init_body_def bind_def return_def push_def truthy_def
      split: if_splits option.splits prod.splits outcome.splits)

lemma init_body_frontend:
  assumes "\<not> truthy (backend (entryPoint (model plg)))"
  shows "init_body env plg acc =
           bind (push Foreign (frontend_plugin plg))
             (\<lambda>_. return (fst acc, snd acc @ [frontend_plugin plg]))"
  using assms by (simp add: init_body_def split: prod.splits)

lemma init_body_no_initializer:
  assumes "truthy (backend (entryPoint (model plg)))"
    and "\<not> truthy (backendInitPath (lifecycle plg))"
  shows "init_body env plg acc =
           bind (push Result (backend_plugin [] plg))
             (\<lambda>_. return (fst acc @ [backend_plugin [] plg], snd acc))"
  using assms
  by (auto simp: init_body_def bind_return_left truthy_def split: prod.splits option.splits)

lemma init_body_initializer:
  assumes "truthy (backend (entryPoint (model plg)))"
    and "backendInitPath (lifecycle plg) = Some p" and "p \<noteq> []"
  shows "init_body env plg acc =
           bind (initialize env p plg)
             (\<lambda>_. bind (push Result (backend_plugin p plg))
                (\<lambda>_. return (fst acc @ [backend_plugin p plg], snd acc)))"
  using assms
  by (auto simp: init_body_def bind_return_left bind_assoc truthy_def split: prod.splits)

lemma initialize_Returns:
  assumes "initialize env p plg h = (Returns u, h1)"
  shows "\<exists>es. trace h1 = trace h @ es @
           [Require (Some p),
            Invoke p ''doInitialization'' [ArgRpc, ArgPluginManager, ArgMetadata plg]]"
  using assms
  by (auto simp: initialize_def bind_def console_log_def require_module_def property_def
        call_def outside_def emit_def
      split: prod.splits outcome.splits exports.splits hook.splits)


lemma init_loop_partition:
  assumes "init_loop env raw (r, f) h = (Returns (result, foreign), h1)"
  shows "result = r @ map (\<lambda>plg. backend_plugin (case backendInitPath (lifecycle plg) of None \<Rightarrow> [] | Some p \<Rightarrow> p) plg)
                       (filter (\<lambda>plg. truthy (backend (entryPoint (model plg)))) raw)
       \<and> foreign = f @ map frontend_plugin
                       (filter (\<lambda>plg. \<not> truthy (backend (entryPoint (model plg)))) raw)"
  using assms
proof (induction raw arbitrary: r f h)
  case Nil
  then show ?case by (simp add: return_def)
next
  case (Cons plg raw)
  from Cons.prems obtain acc h0 where
    b: "init_body env plg (r, f) h = (Returns acc, h0)"
    and l: "init_loop env raw acc h0 = (Returns (result, foreign), h1)"
    by (auto elim: bind_ReturnsD)
  obtain r0 f0 where acc: "acc = (r0, f0)" by (cases acc)
  note ih = Cons.IH[OF l[unfolded acc]]
  show ?case
  proof (cases "truthy (backend (entryPoint (model plg)))")
    case True
    with init_body_Returns[OF b] acc have "r0 = r @ [backend_plugin (case backendInitPath (lifecycle plg) of None \<Rightarrow> [] | Some p \<Rightarrow> p) plg]" and "f0 = f"
      by simp_all
    with ih True show ?thesis by simp
  next
    case False
    with init_body_Returns[OF b] acc have "r0 = r" and "f0 = f @ [frontend_plugin plg]"
      by simp_all
    with ih False show ?thesis by simp
  qed
qed

lemma init_loop_frontend_only:
  assumes "\<forall>plg\<in>set raw. \<not> truthy (backend (entryPoint (model plg)))"
  shows "fst (init_loop env raw (r, f) h) = Returns (r, f @ map frontend_plugin raw)"
  using assms
  by (induction raw arbitrary: f h)
     (simp_all add: return_def init_body_frontend bind_def push_def)

lemma init_loop_Cons:
  "init_loop env (plg # raw) = (\<lambda>acc. bind (init_body env plg acc) (init_loop env raw))"
  by (rule ext) simp

lemma init_loop_member:
  assumes "init_loop env raw (r, f) h = (Returns (result, foreign), h1)"
    and "plg \<in> set raw"
  shows "if truthy (backend (entryPoint (model plg)))
         then backend_plugin (case backendInitPath (lifecycle plg) of None \<Rightarrow> [] | Some p \<Rightarrow> p) plg \<in> set result
         else frontend_plugin plg \<in> set foreign"
  using init_loop_partition[OF assms(1)] assms(2) by auto

lemma init_loop_step_trace:
  assumes "init_loop env (xs @ plg # ys) acc h = (Returns res, h2)"
  obtains a h0 b h1 where "init_loop env xs acc h = (Returns a, h0)"
    and "init_body env plg a h0 = (Returns b, h1)"
    and "init_loop env ys b h1 = (Returns res, h2)"
proof -
  from assms have "bind (init_loop env xs acc) (init_loop env (plg # ys)) h = (Returns res, h2)"
    by (simp only: init_loop_append)
  then obtain a h0 where 1: "init_loop env xs acc h = (Returns a, h0)"
    and "init_loop env (plg # ys) a h0 = (Returns res, h2)"
    by (rule bind_ReturnsD)
  then have "bind (init_body env plg a) (init_loop env ys) h0 = (Returns res, h2)" by simp
  then obtain b h1 where "init_body env plg a h0 = (Returns b, h1)"
    and "init_loop env ys b h1 = (Returns res, h2)"
    by (rule bind_ReturnsD)
  with 1 that show thesis by blast
qed

lemma init_returns_initializer_events:
  assumes "init env raw h = (Returns (result, foreign), h2)"
    and "plg \<in> set raw"
    and "truthy (backend (entryPoint (model plg)))"
    and "backendInitPath (lifecycle plg) = Some p" and "p \<noteq> []"
  shows "(\<exists>before after. trace h2 = trace h @ before @
            [Require (Some p),
             Invoke p ''doInitialization'' [ArgRpc, ArgPluginManager, ArgMetadata plg],
             Push Result (backend_plugin p plg)] @ after)
         \<and> backend_plugin p plg \<in> set result"
proof -
  from assms(2) obtain xs ys where raw: "raw = xs @ plg # ys" by (auto simp: in_set_conv_decomp)
  from assms(1) have "init_loop env (xs @ plg # ys) ([], []) h = (Returns (result, foreign), h2)"
    by (simp add: init_def raw)
  then obtain a h0 b h1 where 1: "init_loop env xs ([], []) h = (Returns a, h0)"
    and 2: "init_body env plg a h0 = (Returns b, h1)"
    and 3: "init_loop env ys b h1 = (Returns (result, foreign), h2)"
    by (rule init_loop_step_trace)
  from grows_init_loop[of h env xs "([], [])"] 1 obtain es0 where e0: "trace h0 = trace h @ es0"
    by (auto simp: prefix_def)
  from grows_init_loop[of h1 env ys b] 3 obtain es2 where e2: "trace h2 = trace h1 @ es2"
    by (auto simp: prefix_def)
  from 2 have "bind (initialize env p plg)
             (\<lambda>_. bind (push Result (backend_plugin p plg))
                (\<lambda>_. return (fst a @ [backend_plugin p plg], snd a))) h0 = (Returns b, h1)"
    by (simp add: init_body_initializer[OF assms(3,4,5)])
  then obtain u hi where i: "initialize env p plg h0 = (Returns u, hi)"
    and "bind (push Result (backend_plugin p plg))
                (\<lambda>_. return (fst a @ [backend_plugin p plg], snd a)) hi = (Returns b, h1)"
    by (rule bind_ReturnsD)
  then have h1: "trace h1 = trace hi @ [Push Result (backend_plugin p plg)]"
    by (auto simp: bind_def push_def return_def emit_def)
  from initialize_Returns[OF i] obtain es where
    "trace hi = trace h0 @ es @ [Require (Some p),
            Invoke p ''doInitialization'' [ArgRpc, ArgPluginManager, ArgMetadata plg]]"
    by blast
  with e0 e2 h1 have "trace h2 = trace h @ (es0 @ es) @
            [Require (Some p),
             Invoke p ''doInitialization'' [ArgRpc, ArgPluginManager, ArgMetadata plg],
             Push Result (backend_plugin p plg)] @ es2"
    by simp
  then have A: "\<exists>before after. trace h2 = trace h @ before @
            [Require (Some p),
             Invoke p ''doInitialization'' [ArgRpc, ArgPluginManager, ArgMetadata plg],
             Push Result (backend_plugin p plg)] @ after"
    by blast
  from init_loop_member[OF assms(1)[unfolded init_def] assms(2)] assms(3,4)
  have "backend_plugin p plg \<in> set result" by simp
  with A show ?thesis by blast
qed

subsection \<open>The turn of a descriptor with an initializer\<close>

lemma init_body_runs_hook:
  assumes "truthy (backend (entryPoint (model plg)))"
    and "backendInitPath (lifecycle plg) = Some p" and "p \<noteq> []"
    and "require env p (world h) = (Returns (Exports (Callable g) l), w1)"
    and "g [ArgRpc, ArgPluginManager, ArgMetadata plg] w1 = (Returns (), w2)"
  shows "init_body env plg acc h
           = (Returns (fst acc @ [backend_plugin p plg], snd acc),
              \<lparr>trace = trace h @
                 [ConsoleLog (''PLUGIN_HOST('' @ decimal (pid env) @ ''): initializing('' @ p @ '')''),
                  Require (Some p),
                  Invoke p ''doInitialization'' [ArgRpc, ArgPluginManager, ArgMetadata plg],
                  Push Result (backend_plugin p plg)],
               world = w2\<rparr>)"
  using assms
  by (cases h)
     (simp add: init_body_initializer initialize_def bind_def return_def push_def
      console_log_def require_module_def property_def call_def outside_def emit_def)

lemma init_body_hook_throws:
  assumes "truthy (backend (entryPoint (model plg)))"
    and "backendInitPath (lifecycle plg) = Some p" and "p \<noteq> []"
    and "require env p (world h) = (Returns (Exports (Callable g) l), w1)"
    and "g [ArgRpc, ArgPluginManager, ArgMetadata plg] w1 = (Throws e, w2)"
  shows "init_body env plg acc h
           = (Throws e,
              \<lparr>trace = trace h @
                 [ConsoleLog (''PLUGIN_HOST('' @ decimal (pid env) @ ''): initializing('' @ p @ '')''),
                  Require (Some p),
                  Invoke p ''doInitialization'' [ArgRpc, ArgPluginManager, ArgMetadata plg]],
               world = w2\<rparr>)"
  using assms
  by (cases h)
     (simp add: init_body_initializer initialize_def bind_def return_def push_def
      console_log_def require_module_def property_def call_def outside_def emit_def)

lemma init_body_require_throws:
  assumes "truthy (backend (entryPoint (model plg)))"
    and "backendInitPath (lifecycle plg) = Some p" and "p \<noteq> []"
    and "require env p (world h) = (Throws e, w1)"
  shows "init_body env plg acc h
           = (Throws e,
              \<lparr>trace = trace h @
                 [ConsoleLog (''PLUGIN_HOST('' @ decimal (pid env) @ ''): initializing('' @ p @ '')''),
                  Require (Some p)],
               world = w1\<rparr>)"
  using assms
  by (cases h)
     (simp add: init_body_initializer initialize_def bind_def return_def push_def
      console_log_def require_module_def property_def call_def outside_def emit_def)

lemma init_turn:
  assumes "init env before h = (Returns acc, h0)"
  shows "init env (before @ plg # after) h
           = bind (init_body env plg acc) (init_loop env after) h0"
  using assms by (simp add: init_def init_loop_append bind_def)

subsection \<open>Unfolding on concrete inputs\<close>

lemmas run_defs = init_def init_body_def initialize_def loadPlugin_def loadPlugin_init_def
  loadPlugin_main_def on_message_def require_module_def property_def call_def
  bind_def return_def try_catch_def console_log_def console_error_def outside_def emit_def
  push_def truthy_def defined_def js_string_def backend_plugin_def frontend_plugin_def
  sample_env_def sample_require_def sample_parse_def sample_fire_def hook_ok_def
  hook_failing_def start_def descriptor_def plugin_a_def plugin_b_def plugin_c_def
  plugin_none_def plugin_main_def plugin_broken_def plugin_throwing_def plugin_missing_def

section \<open>The partition made by init\<close>

text \<open>
  Claim C1, as the code has it. The loop of \<^verbatim>\<open>init\<close> has two branches and no third:
  a descriptor goes to the backend bucket when \<^verbatim>\<open>entryPoint.backend\<close> is truthy and to
  the frontend bucket otherwise. So, whenever \<^verbatim>\<open>init\<close> returns, the backend bucket is
  the list of the descriptors with a truthy backend entry point, in order, and the
  frontend bucket is the list of all the others, in order: every descriptor is in
  exactly one bucket. A descriptor with neither entry point is among the others: it lands
  in the frontend bucket, and a list of descriptors without backend entry point never
  makes \<^verbatim>\<open>init\<close> throw.
\<close>

theorem init_buckets_partition:
  "(init env raw h = (Returns (result, foreign), h1) \<longrightarrow>
      result = map (\<lambda>plg. backend_plugin (case backendInitPath (lifecycle plg) of None \<Rightarrow> [] | Some p \<Rightarrow> p) plg)
                 (filter (\<lambda>plg. truthy (backend (entryPoint (model plg)))) raw)
    \<and> foreign = map frontend_plugin
                 (filter (\<lambda>plg. \<not> truthy (backend (entryPoint (model plg)))) raw))
   \<and> ((\<forall>plg\<in>set raw. \<not> truthy (backend (entryPoint (model plg)))) \<longrightarrow>
        fst (init env raw h) = Returns ([], map frontend_plugin raw))"
  using init_loop_partition[of env raw "[]" "[]" h result foreign h1]
    init_loop_frontend_only[of raw env "[]" "[]" h]
  by (simp add: init_def)
text \<open>
  The claim as worded excludes a descriptor with neither entry point from both buckets.
  On the code it is pushed on the frontend bucket, with \<^verbatim>\<open>undefined\<close> for its path.
\<close>

theorem init_neither_entry_point_counterexample:
  "fst (init sample_env [plugin_none] start)
     = Returns ([], [\<lparr>pluginPath = None, initPath = None,
                       pluginModel = model plugin_none,
                       pluginLifecycle = lifecycle plugin_none,
                       rowModel = ()\<rparr>])
   \<and> frontend (entryPoint (model plugin_none)) = None
   \<and> backend (entryPoint (model plugin_none)) = None"
  by (simp add: run_defs)

theorem init_buckets_partition_witness:
  "init sample_env [plugin_a, plugin_none] start
     = (Returns ([backend_plugin [] plugin_a], [frontend_plugin plugin_none]),
        snd (init sample_env [plugin_a, plugin_none] start))
   \<and> [backend_plugin [] plugin_a]
       = map (\<lambda>plg. backend_plugin (case backendInitPath (lifecycle plg) of None \<Rightarrow> [] | Some p \<Rightarrow> p) plg)
           (filter (\<lambda>plg. truthy (backend (entryPoint (model plg)))) [plugin_a, plugin_none])
   \<and> [frontend_plugin plugin_none]
       = map frontend_plugin
           (filter (\<lambda>plg. \<not> truthy (backend (entryPoint (model plg)))) [plugin_a, plugin_none])
   \<and> \<not> truthy (backend (entryPoint (model plugin_none)))
   \<and> \<not> truthy (backend (entryPoint (model plugin_b)))
   \<and> fst (init sample_env [plugin_none, plugin_b] start)
       = Returns ([], map frontend_plugin [plugin_none, plugin_b])"
proof -
  have 1: "init sample_env [plugin_a, plugin_none] start
     = (Returns ([backend_plugin [] plugin_a], [frontend_plugin plugin_none]),
        snd (init sample_env [plugin_a, plugin_none] start))"
    by (simp add: run_defs)
  have 2: "\<not> truthy (backend (entryPoint (model plugin_none)))
      \<and> \<not> truthy (backend (entryPoint (model plugin_b)))"
    by (simp add: run_defs)
  from init_buckets_partition[of sample_env "[plugin_a, plugin_none]" start
      "[backend_plugin [] plugin_a]" "[frontend_plugin plugin_none]"
      "snd (init sample_env [plugin_a, plugin_none] start)"] 1
  have 3: "[backend_plugin [] plugin_a]
       = map (\<lambda>plg. backend_plugin (case backendInitPath (lifecycle plg) of None \<Rightarrow> [] | Some p \<Rightarrow> p) plg)
           (filter (\<lambda>plg. truthy (backend (entryPoint (model plg)))) [plugin_a, plugin_none])
   \<and> [frontend_plugin plugin_none]
       = map frontend_plugin
           (filter (\<lambda>plg. \<not> truthy (backend (entryPoint (model plg)))) [plugin_a, plugin_none])"
    by blast
  from init_buckets_partition[of sample_env "[plugin_none, plugin_b]" start] 2
  have 4: "fst (init sample_env [plugin_none, plugin_b] start)
       = Returns ([], map frontend_plugin [plugin_none, plugin_b])"
    by simp
  from 1 2 3 4 show ?thesis by blast
qed

section \<open>The initializer of a backend plugin\<close>

text \<open>
  Claim C3. Take a descriptor with a truthy backend entry point and a non-empty
  \<^verbatim>\<open>backendInitPath\<close> \<open>p\<close>, at any place of the list, and let the descriptors before it
  be processed. Its turn calls the environment's \<^verbatim>\<open>require\<close> on \<open>p\<close>, then the
  \<^verbatim>\<open>doInitialization\<close> of the module that came back, with the RPC engine, the plugin
  manager and the descriptor, on the world that \<^verbatim>\<open>require\<close> left, and only then pushes
  the plugin on the backend bucket: the loop goes on from the world the hook left. When
  the hook throws, or \<^verbatim>\<open>require\<close> does, \<^verbatim>\<open>init\<close> throws that value and the plugin is
  never pushed. And whenever \<^verbatim>\<open>init\<close> returns, the plugin is in the returned backend
  bucket, and the \<^verbatim>\<open>require\<close>, the call of the hook and the push stand one right after
  the other in the run.
\<close>

theorem init_initializer_before_push:
  assumes "truthy (backend (entryPoint (model plg)))"
    and "backendInitPath (lifecycle plg) = Some p" and "p \<noteq> []"
    and "init env before h = (Returns acc, h0)"
  shows
    "(require env p (world h0) = (Returns (Exports (Callable g) l), w1)
        \<and> g [ArgRpc, ArgPluginManager, ArgMetadata plg] w1 = (Returns (), w2) \<longrightarrow>
      init env (before @ plg # after) h
        = init_loop env after (fst acc @ [backend_plugin p plg], snd acc)
            \<lparr>trace = trace h0 @
               [ConsoleLog (''PLUGIN_HOST('' @ decimal (pid env) @ ''): initializing('' @ p @ '')''),
                Require (Some p),
                Invoke p ''doInitialization'' [ArgRpc, ArgPluginManager, ArgMetadata plg],
                Push Result (backend_plugin p plg)],
             world = w2\<rparr>)
     \<and> (require env p (world h0) = (Returns (Exports (Callable g) l), w1)
        \<and> g [ArgRpc, ArgPluginManager, ArgMetadata plg] w1 = (Throws e, w2) \<longrightarrow>
      init env (before @ plg # after) h
        = (Throws e,
           \<lparr>trace = trace h0 @
              [ConsoleLog (''PLUGIN_HOST('' @ decimal (pid env) @ ''): initializing('' @ p @ '')''),
               Require (Some p),
               Invoke p ''doInitialization'' [ArgRpc, ArgPluginManager, ArgMetadata plg]],
            world = w2\<rparr>))
     \<and> (require env p (world h0) = (Throws e, w1) \<longrightarrow>
      init env (before @ plg # after) h
        = (Throws e,
           \<lparr>trace = trace h0 @
              [ConsoleLog (''PLUGIN_HOST('' @ decimal (pid env) @ ''): initializing('' @ p @ '')''),
               Require (Some p)],
            world = w1\<rparr>))
     \<and> (init env raw hr = (Returns (result, foreign), h2) \<and> plg \<in> set raw \<longrightarrow>
          backend_plugin p plg \<in> set result
          \<and> (\<exists>es es'. trace h2 = trace hr @ es @
                [Require (Some p),
                 Invoke p ''doInitialization'' [ArgRpc, ArgPluginManager, ArgMetadata plg],
                 Push Result (backend_plugin p plg)] @ es'))"
proof -
  note turn = init_turn[OF assms(4), of plg after]
  have 1: "require env p (world h0) = (Returns (Exports (Callable g) l), w1)
        \<and> g [ArgRpc, ArgPluginManager, ArgMetadata plg] w1 = (Returns (), w2) \<longrightarrow>
      init env (before @ plg # after) h
        = init_loop env after (fst acc @ [backend_plugin p plg], snd acc)
            \<lparr>trace = trace h0 @
               [ConsoleLog (''PLUGIN_HOST('' @ decimal (pid env) @ ''): initializing('' @ p @ '')''),
                Require (Some p),
                Invoke p ''doInitialization'' [ArgRpc, ArgPluginManager, ArgMetadata plg],
                Push Result (backend_plugin p plg)],
             world = w2\<rparr>"
    using init_body_runs_hook[OF assms(1,2,3), of env h0 g l w1 w2 acc]
    by (simp add: turn bind_def)
  have 2: "require env p (world h0) = (Returns (Exports (Callable g) l), w1)
        \<and> g [ArgRpc, ArgPluginManager, ArgMetadata plg] w1 = (Throws e, w2) \<longrightarrow>
      init env (before @ plg # after) h
        = (Throws e,
           \<lparr>trace = trace h0 @
              [ConsoleLog (''PLUGIN_HOST('' @ decimal (pid env) @ ''): initializing('' @ p @ '')''),
               Require (Some p),
               Invoke p ''doInitialization'' [ArgRpc, ArgPluginManager, ArgMetadata plg]],
            world = w2\<rparr>)"
    using init_body_hook_throws[OF assms(1,2,3), of env h0 g l w1 e w2 acc]
    by (simp add: turn bind_def)
  have 3: "require env p (world h0) = (Throws e, w1) \<longrightarrow>
      init env (before @ plg # after) h
        = (Throws e,
           \<lparr>trace = trace h0 @
              [ConsoleLog (''PLUGIN_HOST('' @ decimal (pid env) @ ''): initializing('' @ p @ '')''),
               Require (Some p)],
            world = w1\<rparr>)"
    using init_body_require_throws[OF assms(1,2,3), of env h0 e w1 acc]
    by (simp add: turn bind_def)
  have 4: "init env raw hr = (Returns (result, foreign), h2) \<and> plg \<in> set raw \<longrightarrow>
          backend_plugin p plg \<in> set result
          \<and> (\<exists>es es'. trace h2 = trace hr @ es @
                [Require (Some p),
                 Invoke p ''doInitialization'' [ArgRpc, ArgPluginManager, ArgMetadata plg],
                 Push Result (backend_plugin p plg)] @ es')"
    using init_returns_initializer_events[of env raw hr result foreign h2 plg p] assms(1,2,3)
    by blast
  from 1 2 3 4 show ?thesis by blast
qed

theorem init_initializer_before_push_witness:
  "truthy (backend (entryPoint (model plugin_c)))
   \<and> backendInitPath (lifecycle plugin_c) = Some ''c-init.js''
   \<and> ''c-init.js'' \<noteq> []
   \<and> init sample_env [plugin_a, plugin_b] start
       = (Returns ([backend_plugin [] plugin_a], [frontend_plugin plugin_b]),
          snd (init sample_env [plugin_a, plugin_b] start))
   \<and> require sample_env ''c-init.js'' (world (snd (init sample_env [plugin_a, plugin_b] start)))
       = (Returns (Exports (Callable hook_ok) Absent), 1)
   \<and> hook_ok [ArgRpc, ArgPluginManager, ArgMetadata plugin_c] 1 = (Returns (), 2)
   \<and> init sample_env [plugin_a, plugin_b, plugin_c] start
       = (Returns ([backend_plugin [] plugin_a, backend_plugin ''c-init.js'' plugin_c],
                   [frontend_plugin plugin_b]),
          \<lparr>trace = trace (snd (init sample_env [plugin_a, plugin_b] start)) @
             [ConsoleLog (''PLUGIN_HOST('' @ decimal (pid sample_env) @ ''): initializing(''
                @ ''c-init.js'' @ '')''),
              Require (Some ''c-init.js''),
              Invoke ''c-init.js'' ''doInitialization''
                [ArgRpc, ArgPluginManager, ArgMetadata plugin_c],
              Push Result (backend_plugin ''c-init.js'' plugin_c)],
           world = 2\<rparr>)
   \<and> truthy (backend (entryPoint (model plugin_throwing)))
   \<and> backendInitPath (lifecycle plugin_throwing) = Some ''throwing-init.js''
   \<and> ''throwing-init.js'' \<noteq> []
   \<and> init sample_env [plugin_a] start
       = (Returns ([backend_plugin [] plugin_a], []), snd (init sample_env [plugin_a] start))
   \<and> require sample_env ''throwing-init.js'' (world (snd (init sample_env [plugin_a] start)))
       = (Returns (Exports (Callable hook_failing) Absent), 1)
   \<and> hook_failing [ArgRpc, ArgPluginManager, ArgMetadata plugin_throwing] 1
       = (Throws (Raised ''hook failed''), 2)
   \<and> init sample_env [plugin_a, plugin_throwing, plugin_b] start
       = (Throws (Raised ''hook failed''),
          \<lparr>trace = trace (snd (init sample_env [plugin_a] start)) @
             [ConsoleLog (''PLUGIN_HOST('' @ decimal (pid sample_env) @ ''): initializing(''
                @ ''throwing-init.js'' @ '')''),
              Require (Some ''throwing-init.js''),
              Invoke ''throwing-init.js'' ''doInitialization''
                [ArgRpc, ArgPluginManager, ArgMetadata plugin_throwing]],
           world = 2\<rparr>)
   \<and> truthy (backend (entryPoint (model plugin_missing)))
   \<and> backendInitPath (lifecycle plugin_missing) = Some ''missing-init.js''
   \<and> ''missing-init.js'' \<noteq> []
   \<and> init sample_env [] start = (Returns ([], []), start)
   \<and> require sample_env ''missing-init.js'' (world start)
       = (Throws (Raised ''Cannot find module missing-init.js''), 0)
   \<and> init sample_env [plugin_missing, plugin_a] start
       = (Throws (Raised ''Cannot find module missing-init.js''),
          \<lparr>trace = trace start @
             [ConsoleLog (''PLUGIN_HOST('' @ decimal (pid sample_env) @ ''): initializing(''
                @ ''missing-init.js'' @ '')''),
              Require (Some ''missing-init.js'')],
           world = 0\<rparr>)
   \<and> plugin_c \<in> set [plugin_a, plugin_b, plugin_c]
   \<and> backend_plugin ''c-init.js'' plugin_c
       \<in> set [backend_plugin [] plugin_a, backend_plugin ''c-init.js'' plugin_c]
   \<and> (\<exists>es es'.
         trace (snd (init sample_env [plugin_a, plugin_b, plugin_c] start))
           = trace start @ es @
             [Require (Some ''c-init.js''),
              Invoke ''c-init.js'' ''doInitialization''
                [ArgRpc, ArgPluginManager, ArgMetadata plugin_c],
              Push Result (backend_plugin ''c-init.js'' plugin_c)] @ es')"
proof -
  have c1: "truthy (backend (entryPoint (model plugin_c)))" by (simp add: run_defs)
  have c2: "backendInitPath (lifecycle plugin_c) = Some ''c-init.js''" by (simp add: run_defs)
  have c3: "''c-init.js'' \<noteq> []" by simp
  have c4: "init sample_env [plugin_a, plugin_b] start
       = (Returns ([backend_plugin [] plugin_a], [frontend_plugin plugin_b]),
          snd (init sample_env [plugin_a, plugin_b] start))"
    by (simp add: run_defs)
  have c5: "require sample_env ''c-init.js'' (world (snd (init sample_env [plugin_a, plugin_b] start)))
       = (Returns (Exports (Callable hook_ok) Absent), 1)"
    by (simp add: run_defs)
  have c6: "hook_ok [ArgRpc, ArgPluginManager, ArgMetadata plugin_c] 1 = (Returns (), 2)"
    by (simp add: hook_ok_def)
  have c7: "init sample_env [plugin_a, plugin_b, plugin_c] start
       = (Returns ([backend_plugin [] plugin_a, backend_plugin ''c-init.js'' plugin_c],
                   [frontend_plugin plugin_b]),
          snd (init sample_env [plugin_a, plugin_b, plugin_c] start))"
    by (simp add: run_defs)
  have c8: "plugin_c \<in> set [plugin_a, plugin_b, plugin_c]" by simp
  note C = init_initializer_before_push[OF c1 c2 c3 c4, where g = hook_ok and l = Absent and ?w1.0 = 1 and ?w2.0 = 2
      and after = "[]" and raw = "[plugin_a, plugin_b, plugin_c]" and hr = start
      and result = "[backend_plugin [] plugin_a, backend_plugin ''c-init.js'' plugin_c]"
      and foreign = "[frontend_plugin plugin_b]"
      and ?h2.0 = "snd (init sample_env [plugin_a, plugin_b, plugin_c] start)"]
  from C c5 c6 have r1: "init sample_env [plugin_a, plugin_b, plugin_c] start
       = (Returns ([backend_plugin [] plugin_a, backend_plugin ''c-init.js'' plugin_c],
                   [frontend_plugin plugin_b]),
          \<lparr>trace = trace (snd (init sample_env [plugin_a, plugin_b] start)) @
             [ConsoleLog (''PLUGIN_HOST('' @ decimal (pid sample_env) @ ''): initializing(''
                @ ''c-init.js'' @ '')''),
              Require (Some ''c-init.js''),
              Invoke ''c-init.js'' ''doInitialization''
                [ArgRpc, ArgPluginManager, ArgMetadata plugin_c],
              Push Result (backend_plugin ''c-init.js'' plugin_c)],
           world = 2\<rparr>)"
    by (simp add: return_def)
  from C c7 c8 have r4: "backend_plugin ''c-init.js'' plugin_c
       \<in> set [backend_plugin [] plugin_a, backend_plugin ''c-init.js'' plugin_c]
   \<and> (\<exists>es es'.
         trace (snd (init sample_env [plugin_a, plugin_b, plugin_c] start))
           = trace start @ es @
             [Require (Some ''c-init.js''),
              Invoke ''c-init.js'' ''doInitialization''
                [ArgRpc, ArgPluginManager, ArgMetadata plugin_c],
              Push Result (backend_plugin ''c-init.js'' plugin_c)] @ es')"
    by blast
  have t1: "truthy (backend (entryPoint (model plugin_throwing)))" by (simp add: run_defs)
  have t2: "backendInitPath (lifecycle plugin_throwing) = Some ''throwing-init.js''"
    by (simp add: run_defs)
  have t3: "''throwing-init.js'' \<noteq> []" by simp
  have t4: "init sample_env [plugin_a] start
       = (Returns ([backend_plugin [] plugin_a], []), snd (init sample_env [plugin_a] start))"
    by (simp add: run_defs)
  have t5: "require sample_env ''throwing-init.js'' (world (snd (init sample_env [plugin_a] start)))
       = (Returns (Exports (Callable hook_failing) Absent), 1)"
    by (simp add: run_defs)
  have t6: "hook_failing [ArgRpc, ArgPluginManager, ArgMetadata plugin_throwing] 1
       = (Throws (Raised ''hook failed''), 2)"
    by (simp add: hook_failing_def)
  from init_initializer_before_push[OF t1 t2 t3 t4, where g = hook_failing and l = Absent and ?w1.0 = 1
      and ?w2.0 = 2 and e = "Raised ''hook failed''" and after = "[plugin_b]"] t5 t6
  have r2: "init sample_env [plugin_a, plugin_throwing, plugin_b] start
       = (Throws (Raised ''hook failed''),
          \<lparr>trace = trace (snd (init sample_env [plugin_a] start)) @
             [ConsoleLog (''PLUGIN_HOST('' @ decimal (pid sample_env) @ ''): initializing(''
                @ ''throwing-init.js'' @ '')''),
              Require (Some ''throwing-init.js''),
              Invoke ''throwing-init.js'' ''doInitialization''
                [ArgRpc, ArgPluginManager, ArgMetadata plugin_throwing]],
           world = 2\<rparr>)"
    by simp
  have m1: "truthy (backend (entryPoint (model plugin_missing)))" by (simp add: run_defs)
  have m2: "backendInitPath (lifecycle plugin_missing) = Some ''missing-init.js''"
    by (simp add: run_defs)
  have m3: "''missing-init.js'' \<noteq> []" by simp
  have m4: "init sample_env [] start = (Returns ([], []), start)"
    by (simp add: init_def return_def)
  have m5: "require sample_env ''missing-init.js'' (world start)
       = (Throws (Raised ''Cannot find module missing-init.js''), 0)"
    by (simp add: run_defs)
  from init_initializer_before_push[OF m1 m2 m3 m4, where e = "Raised ''Cannot find module missing-init.js''"
      and ?w1.0 = 0 and after = "[plugin_a]"] m5
  have r3: "init sample_env [plugin_missing, plugin_a] start
       = (Throws (Raised ''Cannot find module missing-init.js''),
          \<lparr>trace = trace start @
             [ConsoleLog (''PLUGIN_HOST('' @ decimal (pid sample_env) @ ''): initializing(''
                @ ''missing-init.js'' @ '')''),
              Require (Some ''missing-init.js'')],
           world = 0\<rparr>)"
    by simp
  from c1 c2 c3 c4 c5 c6 r1 t1 t2 t3 t4 t5 t6 r2 m1 m2 m3 m4 m5 r3 c8 r4
  show ?thesis by blast
qed

text \<open>
  Claim C6. The scenario of the specification, on any three descriptors with the entry
  points and initializer paths it gives, where the module \<^verbatim>\<open>c-init.js\<close> loads and its
  \<^verbatim>\<open>doInitialization\<close> returns: \<^verbatim>\<open>init\<close> returns the backend bucket \<open>[a, c]\<close> and the
  frontend bucket \<open>[b]\<close>, and the hook of \<^verbatim>\<open>c-init.js\<close> runs before \<open>c\<close> is pushed.
\<close>

theorem init_scenario:
  assumes "require env ''c-init.js'' (world h) = (Returns (Exports (Callable g) l), w1)"
    and "g [ArgRpc, ArgPluginManager, ArgMetadata c] w1 = (Returns (), w2)"
    and "entryPoint (model a) = \<lparr>frontend = None, backend = Some ''a.js''\<rparr>"
    and "backendInitPath (lifecycle a) = None"
    and "entryPoint (model b) = \<lparr>frontend = Some ''b.js'', backend = None\<rparr>"
    and "entryPoint (model c) = \<lparr>frontend = None, backend = Some ''c.js''\<rparr>"
    and "backendInitPath (lifecycle c) = Some ''c-init.js''"
  shows "init env [a, b, c] h
           = (Returns ([backend_plugin [] a, backend_plugin ''c-init.js'' c], [frontend_plugin b]),
              \<lparr>trace = trace h @
                 [Push Result (backend_plugin [] a),
                  Push Foreign (frontend_plugin b),
                  ConsoleLog (''PLUGIN_HOST('' @ decimal (pid env) @ ''): initializing(c-init.js)''),
                  Require (Some ''c-init.js''),
                  Invoke ''c-init.js'' ''doInitialization'' [ArgRpc, ArgPluginManager, ArgMetadata c],
                  Push Result (backend_plugin ''c-init.js'' c)],
               world = w2\<rparr>)"
  using assms
  by (simp add: init_def init_body_def initialize_def bind_def return_def push_def
      console_log_def require_module_def property_def call_def outside_def emit_def truthy_def)
theorem init_scenario_witness:
  "require sample_env ''c-init.js'' (world start) = (Returns (Exports (Callable hook_ok) Absent), 1)
   \<and> hook_ok [ArgRpc, ArgPluginManager, ArgMetadata plugin_c] 1 = (Returns (), 2)
   \<and> entryPoint (model plugin_a) = \<lparr>frontend = None, backend = Some ''a.js''\<rparr>
   \<and> backendInitPath (lifecycle plugin_a) = None
   \<and> entryPoint (model plugin_b) = \<lparr>frontend = Some ''b.js'', backend = None\<rparr>
   \<and> entryPoint (model plugin_c) = \<lparr>frontend = None, backend = Some ''c.js''\<rparr>
   \<and> backendInitPath (lifecycle plugin_c) = Some ''c-init.js''
   \<and> init sample_env [plugin_a, plugin_b, plugin_c] start
       = (Returns ([backend_plugin [] plugin_a, backend_plugin ''c-init.js'' plugin_c],
                   [frontend_plugin plugin_b]),
          \<lparr>trace = trace start @
             [Push Result (backend_plugin [] plugin_a),
              Push Foreign (frontend_plugin plugin_b),
              ConsoleLog (''PLUGIN_HOST('' @ decimal (pid sample_env) @ ''): initializing(c-init.js)''),
              Require (Some ''c-init.js''),
              Invoke ''c-init.js'' ''doInitialization''
                [ArgRpc, ArgPluginManager, ArgMetadata plugin_c],
              Push Result (backend_plugin ''c-init.js'' plugin_c)],
           world = 2\<rparr>)"
proof -
  have 1: "require sample_env ''c-init.js'' (world start)
             = (Returns (Exports (Callable hook_ok) Absent), 1)"
    by (simp add: sample_env_def sample_require_def start_def)
  have 2: "hook_ok [ArgRpc, ArgPluginManager, ArgMetadata plugin_c] 1 = (Returns (), 2)"
    by (simp add: hook_ok_def)
  have 3: "entryPoint (model plugin_a) = \<lparr>frontend = None, backend = Some ''a.js''\<rparr>"
    by (simp add: plugin_a_def descriptor_def)
  have 4: "backendInitPath (lifecycle plugin_a) = None"
    by (simp add: plugin_a_def descriptor_def)
  have 5: "entryPoint (model plugin_b) = \<lparr>frontend = Some ''b.js'', backend = None\<rparr>"
    by (simp add: plugin_b_def descriptor_def)
  have 6: "entryPoint (model plugin_c) = \<lparr>frontend = None, backend = Some ''c.js''\<rparr>"
    by (simp add: plugin_c_def descriptor_def)
  have 7: "backendInitPath (lifecycle plugin_c) = Some ''c-init.js''"
    by (simp add: plugin_c_def descriptor_def)
  from init_scenario[OF 1 2 3 4 5 6 7] 1 2 3 4 5 6 7 show ?thesis by blast
qed

text \<open>
  Claim C7. A descriptor with a truthy backend entry point and no \<^verbatim>\<open>backendInitPath\<close>:
  wherever it stands in the list, its turn of the loop is the push of its plugin on the
  backend bucket and nothing else (no \<^verbatim>\<open>require\<close>, no hook, no throw); that plugin has
  the empty string for \<^verbatim>\<open>initPath\<close>, and it is in the backend bucket when \<^verbatim>\<open>init\<close>
  returns.
\<close>

theorem init_no_backendInitPath:
  assumes "truthy (backend (entryPoint (model plg)))"
    and "backendInitPath (lifecycle plg) = None"
  shows "init env (before @ plg # after)
           = bind (init env before)
               (\<lambda>acc. bind (push Result (backend_plugin [] plg))
                  (\<lambda>_. init_loop env after (fst acc @ [backend_plugin [] plg], snd acc)))
         \<and> initPath (backend_plugin [] plg) = Some []
         \<and> (init env raw h = (Returns (result, foreign), h1) \<and> plg \<in> set raw
              \<longrightarrow> backend_plugin [] plg \<in> set result)"
proof -
  have b: "init_body env plg = (\<lambda>acc. bind (push Result (backend_plugin [] plg))
             (\<lambda>_. return (fst acc @ [backend_plugin [] plg], snd acc)))"
    using assms by (intro ext init_body_no_initializer) (simp_all add: truthy_def)
  have "init env (before @ plg # after)
           = bind (init env before)
               (\<lambda>acc. bind (push Result (backend_plugin [] plg))
                  (\<lambda>_. init_loop env after (fst acc @ [backend_plugin [] plg], snd acc)))"
    by (simp add: init_def init_loop_append init_loop_Cons b bind_assoc bind_return_left)
  moreover have "initPath (backend_plugin [] plg) = Some []"
    by (simp add: backend_plugin_def)
  moreover have "init env raw h = (Returns (result, foreign), h1) \<and> plg \<in> set raw
              \<longrightarrow> backend_plugin [] plg \<in> set result"
    using init_loop_member[of env raw "[]" "[]" h result foreign h1 plg] assms
    by (auto simp: init_def)
  ultimately show ?thesis by blast
qed
theorem init_no_backendInitPath_witness:
  "truthy (backend (entryPoint (model plugin_a)))
   \<and> backendInitPath (lifecycle plugin_a) = None
   \<and> init sample_env ([plugin_b] @ plugin_a # [plugin_c])
       = bind (init sample_env [plugin_b])
           (\<lambda>acc. bind (push Result (backend_plugin [] plugin_a))
              (\<lambda>_. init_loop sample_env [plugin_c] (fst acc @ [backend_plugin [] plugin_a], snd acc)))
   \<and> initPath (backend_plugin [] plugin_a) = Some []
   \<and> init sample_env [plugin_b, plugin_a, plugin_c] start
       = (Returns ([backend_plugin [] plugin_a, backend_plugin ''c-init.js'' plugin_c],
                   [frontend_plugin plugin_b]),
          snd (init sample_env [plugin_b, plugin_a, plugin_c] start))
   \<and> plugin_a \<in> set [plugin_b, plugin_a, plugin_c]
   \<and> backend_plugin [] plugin_a
       \<in> set [backend_plugin [] plugin_a, backend_plugin ''c-init.js'' plugin_c]"
proof -
  have 1: "truthy (backend (entryPoint (model plugin_a)))" by (simp add: run_defs)
  have 2: "backendInitPath (lifecycle plugin_a) = None" by (simp add: run_defs)
  have 3: "init sample_env [plugin_b, plugin_a, plugin_c] start
       = (Returns ([backend_plugin [] plugin_a, backend_plugin ''c-init.js'' plugin_c],
                   [frontend_plugin plugin_b]),
          snd (init sample_env [plugin_b, plugin_a, plugin_c] start))"
    by (simp add: run_defs)
  have 4: "plugin_a \<in> set [plugin_b, plugin_a, plugin_c]" by simp
  from init_no_backendInitPath[OF 1 2, of sample_env "[plugin_b]" "[plugin_c]"
      "[plugin_b, plugin_a, plugin_c]" start
      "[backend_plugin [] plugin_a, backend_plugin ''c-init.js'' plugin_c]"
      "[frontend_plugin plugin_b]" "snd (init sample_env [plugin_b, plugin_a, plugin_c] start)"]
    1 2 3 4
  show ?thesis by blast
qed

text \<open>
  Claim C8. A descriptor with a frontend entry point and no backend entry point:
  wherever it stands in the list, its turn of the loop is the push of its plugin on the
  frontend bucket and nothing else (no \<^verbatim>\<open>require\<close>, no hook); the plugin carries the
  frontend entry point as its path, and it is in the frontend bucket when \<^verbatim>\<open>init\<close>
  returns.
\<close>

theorem init_frontend_only:
  assumes "backend (entryPoint (model plg)) = None"
    and "frontend (entryPoint (model plg)) = Some path"
  shows "init env (before @ plg # after)
           = bind (init env before)
               (\<lambda>acc. bind (push Foreign (frontend_plugin plg))
                  (\<lambda>_. init_loop env after (fst acc, snd acc @ [frontend_plugin plg])))
         \<and> pluginPath (frontend_plugin plg) = Some path
         \<and> (init env raw h = (Returns (result, foreign), h1) \<and> plg \<in> set raw
              \<longrightarrow> frontend_plugin plg \<in> set foreign)"
proof -
  have b: "init_body env plg = (\<lambda>acc. bind (push Foreign (frontend_plugin plg))
             (\<lambda>_. return (fst acc, snd acc @ [frontend_plugin plg])))"
    using assms by (intro ext init_body_frontend) (simp add: truthy_def)
  have "init env (before @ plg # after)
           = bind (init env before)
               (\<lambda>acc. bind (push Foreign (frontend_plugin plg))
                  (\<lambda>_. init_loop env after (fst acc, snd acc @ [frontend_plugin plg])))"
    by (simp add: init_def init_loop_append init_loop_Cons b bind_assoc bind_return_left)
  moreover have "pluginPath (frontend_plugin plg) = Some path"
    using assms by (simp add: frontend_plugin_def)
  moreover have "init env raw h = (Returns (result, foreign), h1) \<and> plg \<in> set raw
              \<longrightarrow> frontend_plugin plg \<in> set foreign"
    using init_loop_member[of env raw "[]" "[]" h result foreign h1 plg] assms
    by (auto simp: init_def truthy_def)
  ultimately show ?thesis by blast
qed
theorem init_frontend_only_witness:
  "backend (entryPoint (model plugin_b)) = None
   \<and> frontend (entryPoint (model plugin_b)) = Some ''b.js''
   \<and> init sample_env ([plugin_a] @ plugin_b # [plugin_c])
       = bind (init sample_env [plugin_a])
           (\<lambda>acc. bind (push Foreign (frontend_plugin plugin_b))
              (\<lambda>_. init_loop sample_env [plugin_c] (fst acc, snd acc @ [frontend_plugin plugin_b])))
   \<and> pluginPath (frontend_plugin plugin_b) = Some ''b.js''
   \<and> init sample_env [plugin_a, plugin_b, plugin_c] start
       = (Returns ([backend_plugin [] plugin_a, backend_plugin ''c-init.js'' plugin_c],
                   [frontend_plugin plugin_b]),
          snd (init sample_env [plugin_a, plugin_b, plugin_c] start))
   \<and> plugin_b \<in> set [plugin_a, plugin_b, plugin_c]
   \<and> frontend_plugin plugin_b \<in> set [frontend_plugin plugin_b]"
proof -
  have 1: "backend (entryPoint (model plugin_b)) = None" by (simp add: run_defs)
  have 2: "frontend (entryPoint (model plugin_b)) = Some ''b.js''" by (simp add: run_defs)
  have 3: "init sample_env [plugin_a, plugin_b, plugin_c] start
       = (Returns ([backend_plugin [] plugin_a, backend_plugin ''c-init.js'' plugin_c],
                   [frontend_plugin plugin_b]),
          snd (init sample_env [plugin_a, plugin_b, plugin_c] start))"
    by (simp add: run_defs)
  have 4: "plugin_b \<in> set [plugin_a, plugin_b, plugin_c]" by simp
  from init_frontend_only[OF 1 2, of sample_env "[plugin_a]" "[plugin_c]"
      "[plugin_a, plugin_b, plugin_c]" start
      "[backend_plugin [] plugin_a, backend_plugin ''c-init.js'' plugin_c]"
      "[frontend_plugin plugin_b]" "snd (init sample_env [plugin_a, plugin_b, plugin_c] start)"]
    1 2 3 4
  show ?thesis by blast
qed

section \<open>loadPlugin\<close>

text \<open>
  Claim C9. Every call of \<^verbatim>\<open>loadPlugin\<close> starts with its log line and the
  \<^verbatim>\<open>require\<close> of \<open>contextPath\<close>, whatever the plugin is and whatever the module exports;
  nothing but the log line comes before. When the module exports no \<^verbatim>\<open>doLoad\<close>, the call
  goes on with the main module at once; when it exports a function, that function is
  called with the RPC engine and the plugin first.
\<close>

theorem loadPlugin_requires_contextPath_first:
  "(\<exists>rest. trace (snd (loadPlugin env contextPath plugin h))
      = trace h @ [ConsoleLog (''PLUGIN_HOST('' @ decimal (pid env) @ ''): loadPlugin(''
                         @ js_string (pluginPath plugin) @ '')''), Require (Some contextPath)] @ rest)
   \<and> (require env contextPath (world h) = (Returns (Exports i Absent), w) \<longrightarrow>
        loadPlugin env contextPath plugin h
          = loadPlugin_main env plugin
              \<lparr>trace = trace h @ [ConsoleLog (''PLUGIN_HOST('' @ decimal (pid env) @ ''): loadPlugin(''
                         @ js_string (pluginPath plugin) @ '')''), Require (Some contextPath)],
               world = w\<rparr>)
   \<and> (require env contextPath (world h) = (Returns (Exports i (Callable g)), w) \<longrightarrow>
        loadPlugin env contextPath plugin h
          = bind (outside (g [ArgRpc, ArgPlugin plugin])) (\<lambda>_. loadPlugin_main env plugin)
              \<lparr>trace = trace h @ [ConsoleLog (''PLUGIN_HOST('' @ decimal (pid env) @ ''): loadPlugin(''
                         @ js_string (pluginPath plugin) @ '')''), Require (Some contextPath),
                         Invoke contextPath ''doLoad'' [ArgRpc, ArgPlugin plugin]],
               world = w\<rparr>)"
proof -
  let ?log = "ConsoleLog (''PLUGIN_HOST('' @ decimal (pid env) @ ''): loadPlugin(''
                         @ js_string (pluginPath plugin) @ '')'')"
  obtain hi where hi: "hi = snd (loadPlugin_init env contextPath plugin h)" by simp
  from loadPlugin_init_trace[of env contextPath plugin h] hi
  obtain es where es: "trace hi = trace h @ [?log, Require (Some contextPath)] @ es"
    by auto
  have "prefix (trace hi) (trace (snd (loadPlugin env contextPath plugin h)))"
    using grows_loadPlugin_main[of hi env plugin] hi
    by (cases "loadPlugin_init env contextPath plugin h")
       (auto simp: loadPlugin_def bind_def split: outcome.splits)
  with es have 1: "\<exists>rest. trace (snd (loadPlugin env contextPath plugin h))
      = trace h @ [?log, Require (Some contextPath)] @ rest"
    by (auto simp: prefix_def)
  have 2: "require env contextPath (world h) = (Returns (Exports i Absent), w) \<longrightarrow>
        loadPlugin env contextPath plugin h
          = loadPlugin_main env plugin
              \<lparr>trace = trace h @ [?log, Require (Some contextPath)], world = w\<rparr>"
    by (cases h) (simp add: loadPlugin_def loadPlugin_init_def bind_def return_def console_log_def
        require_module_def property_def outside_def emit_def defined_def)
  have 3: "require env contextPath (world h) = (Returns (Exports i (Callable g)), w) \<longrightarrow>
        loadPlugin env contextPath plugin h
          = bind (outside (g [ArgRpc, ArgPlugin plugin])) (\<lambda>_. loadPlugin_main env plugin)
              \<lparr>trace = trace h @ [?log, Require (Some contextPath),
                         Invoke contextPath ''doLoad'' [ArgRpc, ArgPlugin plugin]],
               world = w\<rparr>"
    by (cases h) (simp add: loadPlugin_def loadPlugin_init_def bind_def return_def console_log_def
        require_module_def property_def call_def outside_def emit_def defined_def
        split: prod.splits outcome.splits)
  from 1 2 3 show ?thesis by blast
qed
theorem loadPlugin_requires_contextPath_first_witness:
  "require sample_env ''c-init.js'' (world start) = (Returns (Exports (Callable hook_ok) Absent), 1)
   \<and> loadPlugin sample_env ''c-init.js'' plugin_main start
       = loadPlugin_main sample_env plugin_main
           \<lparr>trace = trace start @
              [ConsoleLog (''PLUGIN_HOST('' @ decimal (pid sample_env) @ ''): loadPlugin(''
                 @ js_string (pluginPath plugin_main) @ '')''), Require (Some ''c-init.js'')],
            world = 1\<rparr>
   \<and> require sample_env ''init.js'' (world start)
       = (Returns (Exports (Callable hook_ok) (Callable hook_ok)), 1)
   \<and> loadPlugin sample_env ''init.js'' plugin_main start
       = bind (outside (hook_ok [ArgRpc, ArgPlugin plugin_main]))
           (\<lambda>_. loadPlugin_main sample_env plugin_main)
           \<lparr>trace = trace start @
              [ConsoleLog (''PLUGIN_HOST('' @ decimal (pid sample_env) @ ''): loadPlugin(''
                 @ js_string (pluginPath plugin_main) @ '')''), Require (Some ''init.js''),
               Invoke ''init.js'' ''doLoad'' [ArgRpc, ArgPlugin plugin_main]],
            world = 1\<rparr>"
proof -
  have 1: "require sample_env ''c-init.js'' (world start)
             = (Returns (Exports (Callable hook_ok) Absent), 1)"
    by (simp add: sample_env_def sample_require_def start_def)
  have 2: "require sample_env ''init.js'' (world start)
             = (Returns (Exports (Callable hook_ok) (Callable hook_ok)), 1)"
    by (simp add: sample_env_def sample_require_def start_def)
  from loadPlugin_requires_contextPath_first[of sample_env "''c-init.js''" plugin_main start
      "Callable hook_ok" 1] 1
    loadPlugin_requires_contextPath_first[of sample_env "''init.js''" plugin_main start
      "Callable hook_ok" 1 hook_ok] 2
  show ?thesis by blast
qed





section \<open>The inbound message handler\<close>

text \<open>
  Claim C4. A message that \<^verbatim>\<open>JSON.parse\<close> rejects: the handler returns normally, the
  error is written to the error log, \<^verbatim>\<open>emitter.fire\<close> is not called (the trace gets the
  log entry and nothing else, and the world is as it was): the frame is dropped.
\<close>

theorem on_message_malformed_dropped:
  assumes "parse env message = Inl e"
  shows "on_message env message h = (Returns (), h\<lparr>trace := trace h @ [ConsoleError e]\<rparr>)"
  using assms by (simp add: on_message_def try_catch_def console_error_def emit_def)
theorem on_message_malformed_dropped_witness:
  "parse sample_env ''{oops'' = Inl (SyntaxError ''Unexpected token'')
   \<and> on_message sample_env ''{oops'' start
       = (Returns (), \<lparr>trace = [ConsoleError (SyntaxError ''Unexpected token'')], world = 0\<rparr>)"
proof -
  have 1: "parse sample_env ''{oops'' = Inl (SyntaxError ''Unexpected token'')"
    by (simp add: sample_env_def sample_parse_def)
  from on_message_malformed_dropped[OF 1, of start] 1 show ?thesis by (simp add: start_def)
qed

text \<open>
  Claim C10. The handler never throws, whatever \<^verbatim>\<open>JSON.parse\<close> and the subscribers do:
  the \<^verbatim>\<open>try\<close> block holds the call of \<^verbatim>\<open>emitter.fire\<close> too. When the message decodes
  and \<^verbatim>\<open>emitter.fire\<close> throws, the handler returns normally after writing the thrown
  value to the error log.
\<close>

theorem on_message_subscriber_throw_caught:
  "fst (on_message env message h) = Returns ()
   \<and> (parse env message = Inr v \<and> fire env v (world h) = (Throws e, w) \<longrightarrow>
        on_message env message h
          = (Returns (), \<lparr>trace = trace h @ [Fire v, ConsoleError e], world = w\<rparr>))"
  by (auto simp: on_message_def try_catch_def console_error_def emit_def outside_def
      split: sum.splits prod.splits outcome.splits)
theorem on_message_subscriber_throw_caught_witness:
  "parse sample_env ''[]'' = Inr ''[]''
   \<and> fire sample_env ''[]'' (world start) = (Throws (Raised ''subscriber failed''), 1)
   \<and> on_message sample_env ''[]'' start
       = (Returns (),
          \<lparr>trace = [Fire ''[]'', ConsoleError (Raised ''subscriber failed'')], world = 1\<rparr>)"
proof -
  have 1: "parse sample_env ''[]'' = Inr ''[]''"
    by (simp add: sample_env_def sample_parse_def)
  have 2: "fire sample_env ''[]'' (world start) = (Throws (Raised ''subscriber failed''), 1)"
    by (simp add: sample_env_def sample_fire_def start_def)
  from on_message_subscriber_throw_caught[of sample_env "''[]''" start "''[]''"
      "Raised ''subscriber failed''" 1] 1 2
  show ?thesis by (simp add: start_def)
qed

end
